theory Spec2Isabelle
  imports Complex_Main
begin

section \<open>Strings and numbers of the message handler\<close>

text \<open>
  The handler of \<^verbatim>\<open>src/server.js\<close> works on JavaScript strings and numbers.
  A character of a \<^typ>\<open>string\<close> here is a code unit in the range 0..255 (Basic Latin
  and Latin-1), on which \<^verbatim>\<open>toLowerCase\<close>, \<^verbatim>\<open>trim\<close> and the regular
  expressions of the source are written out below. The pictographs of the source's reply
  texts lie outside that range and are held as named constants (their UTF-8 bytes).
  Numbers are whole numbers: identifiers, prices and parsed amounts are \<^typ>\<open>int\<close>, and
  the product \<^verbatim>\<open>price * 0.9\<close> is taken exactly, as a \<^typ>\<open>rat\<close>; the
  double arithmetic of the source agrees with it for whole numbers below \<open>2^53\<close>.
\<close>

definition code :: "char \<Rightarrow> nat" where
  "code c = of_char c"

text \<open>White space as \<^verbatim>\<open>String.prototype.trim\<close>, \<^verbatim>\<open>\s\<close> and \<^verbatim>\<open>parseInt\<close> read it
  (tab, line feed, vertical tab, form feed, carriage return, space, no-break space).\<close>

definition isWhiteSpace :: "char \<Rightarrow> bool" where
  "isWhiteSpace c = (code c \<in> set [9, 10, 11, 12, 13, 32, 160])"

definition isDigit :: "char \<Rightarrow> bool" where
  "isDigit c = (48 \<le> code c \<and> code c \<le> 57)"

definition isLower :: "char \<Rightarrow> bool" where
  "isLower c = (97 \<le> code c \<and> code c \<le> 122)"

definition isUpper :: "char \<Rightarrow> bool" where
  "isUpper c = (65 \<le> code c \<and> code c \<le> 90)"

text \<open>\<^verbatim>\<open>toLowerCase\<close>: A..Z and the Latin-1 capitals (U+00C0..U+00DE, without the
  multiplication sign U+00D7) move up by 32; every other character stays.\<close>

definition toLowerCase_char :: "char \<Rightarrow> char" where
  "toLowerCase_char c =
     (if isUpper c \<or> (192 \<le> code c \<and> code c \<le> 222 \<and> code c \<noteq> 215)
      then char_of (code c + 32) else c)"

definition toLowerCase :: "string \<Rightarrow> string" where
  "toLowerCase s = map toLowerCase_char s"

text \<open>\<^verbatim>\<open>toUpperCase\<close> is only applied to the first letter of one of the three category
  words, so it is written out for a..z.\<close>

definition toUpperCase_char :: "char \<Rightarrow> char" where
  "toUpperCase_char c = (if isLower c then char_of (code c - 32) else c)"

definition trim :: "string \<Rightarrow> string" where
  "trim s = rev (dropWhile isWhiteSpace (rev (dropWhile isWhiteSpace s)))"

definition startsWith :: "string \<Rightarrow> string \<Rightarrow> bool" where
  "startsWith s p = (take (length p) s = p)"

text \<open>\<^verbatim>\<open>s.split(" ")\<close>: the pieces between single spaces, empty pieces kept.\<close>

fun split_sp :: "string \<Rightarrow> string list" where
  "split_sp [] = [[]]"
| "split_sp (c # cs) =
     (if c = CHR '' '' then [] # split_sp cs
      else (case split_sp cs of [] \<Rightarrow> [[c]] | w # ws \<Rightarrow> (c # w) # ws))"

text \<open>\<^verbatim>\<open>xs[1]\<close>: \<^verbatim>\<open>undefined\<close> (here \<open>None\<close>) when the array has fewer than two
  elements.\<close>

fun index1 :: "'a list \<Rightarrow> 'a option" where
  "index1 (x # y # ys) = Some y"
| "index1 xs = None"

definition digit_value :: "char \<Rightarrow> int" where
  "digit_value c = int (code c) - 48"

text \<open>\<^verbatim>\<open>parseInt(s, 10)\<close>: leading white space is skipped, one sign is read, then the
  longest run of decimal digits; \<open>None\<close> stands for \<^verbatim>\<open>NaN\<close>. An \<^verbatim>\<open>undefined\<close>
  argument is read as the text "undefined", which has no digits.\<close>

definition parseInt_str :: "string \<Rightarrow> int option" where
  "parseInt_str s =
     (let s1 = dropWhile isWhiteSpace s;
          neg = (case s1 of [] \<Rightarrow> False | c # _ \<Rightarrow> c = CHR ''-'');
          s2 = (case s1 of [] \<Rightarrow> [] | c # r \<Rightarrow> if c = CHR ''-'' \<or> c = CHR ''+'' then r else s1);
          ds = takeWhile isDigit s2;
          n = foldl (\<lambda>a c. 10 * a + digit_value c) 0 ds
      in if ds = [] then None else Some (if neg then - n else n))"

definition parseInt :: "string option \<Rightarrow> int option" where
  "parseInt a = (case a of None \<Rightarrow> None | Some s \<Rightarrow> parseInt_str s)"

definition digit_char :: "nat \<Rightarrow> char" where
  "digit_char n = char_of (48 + n mod 10)"

fun show_nat :: "nat \<Rightarrow> string" where
  "show_nat n = (if n < 10 then [digit_char n] else show_nat (n div 10) @ [digit_char n])"

declare show_nat.simps [simp del]

text \<open>A whole number inside a template literal.\<close>

definition show_int :: "int \<Rightarrow> string" where
  "show_int i = (if i < 0 then ''-'' @ show_nat (nat (- i)) else show_nat (nat i))"

text \<open>\<^verbatim>\<open>x.toFixed(2)\<close>: the sign, then the whole number \<open>n\<close> nearest to
  \<open>100 * |x|\<close> (the larger one on a tie), written with a point before its last two
  digits.\<close>

definition toFixed2 :: "rat \<Rightarrow> string" where
  "toFixed2 x =
     (let n = nat \<lfloor>\<bar>x\<bar> * 100 + 1 / 2\<rfloor>
      in (if x < 0 then ''-'' else '''') @ show_nat (n div 100) @ ''.''
           @ [digit_char (n div 10), digit_char n])"

text \<open>\<^verbatim>\<open>/^\d+$/.test(s)\<close>\<close>

definition digitsOnly :: "string \<Rightarrow> bool" where
  "digitsOnly s = (s \<noteq> [] \<and> list_all isDigit s)"

text \<open>The character class \<^verbatim>\<open>[a-zA-Z\s\-']\<close> of \<^verbatim>\<open>nameRegex\<close>.\<close>

definition nameChar :: "char \<Rightarrow> bool" where
  "nameChar c = (isLower c \<or> isUpper c \<or> isWhiteSpace c \<or> c = CHR ''-'' \<or> c = CHR 0x27)"

text \<open>\<^verbatim>\<open>nameRegex.test(name) && name.trim().length >= 2\<close>\<close>

definition isValidName :: "string \<Rightarrow> bool" where
  "isValidName name = ((name \<noteq> [] \<and> list_all nameChar name) \<and> 2 \<le> length (trim name))"

section \<open>The persisted data and the request\<close>

record tractor =
  tid :: int
  tname :: string
  price :: int
  condition :: string
  useCase :: string
  timage :: string

record negotiation =
  tractorId :: int
  stage :: string

text \<open>A user without the \<^verbatim>\<open>name\<close> property has \<open>name = None\<close>; a \<^verbatim>\<open>null\<close>
  negotiation is \<open>currentNegotiation = None\<close>.\<close>

record user =
  phone :: string
  name :: "string option"
  currentNegotiation :: "negotiation option"

text \<open>The content of \<^verbatim>\<open>data.json\<close>.\<close>

record data =
  users :: "user list"
  tractors :: "tractor list"

record request =
  Body :: "string option"
  From :: string

text \<open>What one request leaves behind: the messages of the reply in order, the
  collection \<^verbatim>\<open>data\<close> held by the handler when it ends, and the content of
  \<^verbatim>\<open>data.json\<close> after it (changed only by \<^verbatim>\<open>writeData\<close>).\<close>

record outcome =
  twiml :: "string list"
  mem :: data
  stored :: data

datatype error = TypeError

text \<open>A change made through the reference that \<^verbatim>\<open>users.find\<close> returned: it changes
  the first element that satisfies the predicate, in place.\<close>

fun update_first :: "('a \<Rightarrow> bool) \<Rightarrow> ('a \<Rightarrow> 'a) \<Rightarrow> 'a list \<Rightarrow> 'a list" where
  "update_first P f [] = []"
| "update_first P f (x # xs) = (if P x then f x # xs else x # update_first P f xs)"

section \<open>The reply texts\<close>

definition robot :: string where "robot = [CHR 0xF0, CHR 0x9F, CHR 0xA4, CHR 0x96]"
definition wave :: string where "wave = [CHR 0xF0, CHR 0x9F, CHR 0x91, CHR 0x8B]"
definition bullet :: string where "bullet = [CHR 0xE2, CHR 0x80, CHR 0xA2]"
definition tractor_sign :: string where "tractor_sign = [CHR 0xF0, CHR 0x9F, CHR 0x9A, CHR 0x9C]"
definition diamond :: string where "diamond = [CHR 0xF0, CHR 0x9F, CHR 0x94, CHR 0xB9]"
definition clipboard :: string where "clipboard = [CHR 0xF0, CHR 0x9F, CHR 0x93, CHR 0x8B]"
definition money_bag :: string where "money_bag = [CHR 0xF0, CHR 0x9F, CHR 0x92, CHR 0xB0]"
definition magnifier :: string where "magnifier = [CHR 0xF0, CHR 0x9F, CHR 0x94, CHR 0x8D]"
definition seedling :: string where "seedling = [CHR 0xF0, CHR 0x9F, CHR 0x8C, CHR 0xB1]"
definition cross_mark :: string where "cross_mark = [CHR 0xE2, CHR 0x9D, CHR 0x8C]"
definition handshake :: string where "handshake = [CHR 0xF0, CHR 0x9F, CHR 0xA4, CHR 0x9D]"
definition party :: string where "party = [CHR 0xF0, CHR 0x9F, CHR 0x8E, CHR 0x89]"
definition broken_heart :: string where "broken_heart = [CHR 0xF0, CHR 0x9F, CHR 0x92, CHR 0x94]"
definition apos :: string where "apos = [CHR 0x27]"
definition dquote :: string where "dquote = [CHR 0x22]"

definition createResponseMessage :: "string \<Rightarrow> string" where
  "createResponseMessage message = robot @ '' '' @ message"

definition start_text :: string where
  "start_text = createResponseMessage (wave @ '' Welcome to Hallo Tractor! \<newline>\<newline>'' @ bullet
     @ '' Type 'Recommend' for personalized tractor suggestions\<newline>'' @ bullet
     @ '' Type 'Browse' to see all tractors\<newline>\<newline>What would you like to do?'')"

definition recommend_text :: string where
  "recommend_text = createResponseMessage
     (''Great! Let's find the perfect tractor for you. What's your primary use?\<newline>\<newline>''
      @ bullet @ '' Type 'Farming'\<newline>'' @ bullet @ '' Type 'Landscaping'\<newline>''
      @ bullet @ '' Type 'Construction'' @ apos)"

text \<open>One line of a listing: \<^verbatim>\<open>id. name - $price\<close>.\<close>

definition listing_line :: "tractor \<Rightarrow> string" where
  "listing_line t = diamond @ '' '' @ show_int (tid t) @ ''. '' @ tname t @ '' - $''
     @ show_int (price t) @ ''\<newline>''"

definition category_text :: "string \<Rightarrow> tractor list \<Rightarrow> string" where
  "category_text incomingMsg ts =
     (let recommendedTractors = filter (\<lambda>t. toLowerCase (useCase t) = incomingMsg) ts
      in createResponseMessage (tractor_sign @ '' Top ''
           @ map toUpperCase_char (take 1 incomingMsg) @ drop 1 incomingMsg @ '' Tractors:\<newline>'')
         @ concat (map listing_line recommendedTractors)
         @ createResponseMessage (''Reply '' @ dquote @ ''View [ID]'' @ dquote
             @ '' to see details or '' @ dquote @ ''Browse'' @ dquote @ '' for more options.''))"

definition browse_text :: "tractor list \<Rightarrow> string" where
  "browse_text ts =
     createResponseMessage (''Here are some tractors for sale: '' @ tractor_sign @ ''\<newline>'')
     @ concat (map listing_line ts)
     @ createResponseMessage (''Reply '' @ dquote @ ''View [ID]'' @ dquote
         @ '' for details. Tip: More options coming soon!'')"

definition details_text :: "tractor \<Rightarrow> string" where
  "details_text t = createResponseMessage (tractor_sign @ '' Tractor Details:\<newline>''
     @ clipboard @ '' Name: '' @ tname t @ ''\<newline>''
     @ money_bag @ '' Price: $'' @ show_int (price t) @ ''\<newline>''
     @ magnifier @ '' Condition: '' @ condition t @ ''\<newline>''
     @ seedling @ '' Best For: '' @ useCase t)"

definition interested_text :: string where
  "interested_text = createResponseMessage
     (''Interested? Type 'Negotiate [ID]' to start a conversation with the seller.'')"

definition not_found_text :: string where
  "not_found_text = createResponseMessage
     (cross_mark @ '' Tractor not found. Type 'Browse' to see available tractors.'')"

definition negotiating_text :: "tractor \<Rightarrow> string" where
  "negotiating_text t = createResponseMessage (handshake @ '' Negotiating '' @ tname t
     @ ''. Please send your full name (first and last name).'')"

text \<open>A missing \<^verbatim>\<open>name\<close> is printed by a template literal as "undefined".\<close>

definition show_name :: "string option \<Rightarrow> string" where
  "show_name n = (case n of None \<Rightarrow> ''undefined'' | Some s \<Rightarrow> s)"

definition hello_text :: "string option \<Rightarrow> string" where
  "hello_text n = createResponseMessage (''Hello, '' @ show_name n @ ''! '' @ wave
     @ '' What's your initial offer for the tractor? Type 'Offer [Amount]'.'')"

definition invalid_name_text :: string where
  "invalid_name_text = createResponseMessage (cross_mark
     @ '' Invalid name. Please enter your full name using letters, spaces, hyphens, or apostrophes.'')"

definition invalid_number_text :: string where
  "invalid_number_text = createResponseMessage (cross_mark
     @ '' Please enter a valid number for your offer. Example: 'Offer 5000'' @ apos)"

definition accepted_text :: "string option \<Rightarrow> tractor \<Rightarrow> int \<Rightarrow> string" where
  "accepted_text n t offerAmount = createResponseMessage (party @ '' Deal accepted, ''
     @ show_name n @ ''! You've negotiated the '' @ tname t @ '' at $'' @ show_int offerAmount @ ''.'')"

definition too_low_text :: "tractor \<Rightarrow> string" where
  "too_low_text t = createResponseMessage (broken_heart
     @ '' Offer too low! The seller suggests a minimum of $''
     @ toFixed2 (of_int (price t) * (9 / 10)) @ ''.'')"

definition no_negotiation_text :: string where
  "no_negotiation_text = createResponseMessage (cross_mark
     @ '' No active negotiation. Start by typing 'Negotiate [ID]'.'')"

definition default_text :: string where
  "default_text = createResponseMessage (wave @ '' Welcome to Hallo Tractor! \<newline>\<newline>''
     @ bullet @ '' Type 'Start' to begin\<newline>'' @ bullet @ '' Type 'Help' for more information'')"

section \<open>The webhook handler\<close>

text \<open>\<^verbatim>\<open>req.body.Body ? req.body.Body.toLowerCase().trim() : ''\<close>: a missing and an
  empty body both give the empty message.\<close>

definition incomingMsg :: "request \<Rightarrow> string" where
  "incomingMsg req =
     (case Body req of None \<Rightarrow> [] | Some b \<Rightarrow> if b = [] then [] else trim (toLowerCase b))"

text \<open>\<^verbatim>\<open>data.users.find((u) => u.phone === userNumber)\<close>\<close>

definition findUser :: "string \<Rightarrow> data \<Rightarrow> user option" where
  "findUser userNumber d = find (\<lambda>u. phone u = userNumber) (users d)"

text \<open>\<^verbatim>\<open>data.tractors.find((t) => t.id === n)\<close>; nothing is equal to \<^verbatim>\<open>NaN\<close>.\<close>

definition findTractor :: "int option \<Rightarrow> data \<Rightarrow> tractor option" where
  "findTractor n d = (case n of None \<Rightarrow> None | Some i \<Rightarrow> find (\<lambda>t. tid t = i) (tractors d))"

text \<open>A branch that only replies: nothing is changed and nothing is written.\<close>

definition reply_only :: "string list \<Rightarrow> data \<Rightarrow> outcome" where
  "reply_only ms d = \<lparr>twiml = ms, mem = d, stored = d\<rparr>"

text \<open>A branch that ends with \<^verbatim>\<open>writeData(data)\<close>: the file holds the handler's
  collection.\<close>

definition reply_written :: "string list \<Rightarrow> data \<Rightarrow> outcome" where
  "reply_written ms d' = \<lparr>twiml = ms, mem = d', stored = d'\<rparr>"

definition view_case :: "string \<Rightarrow> data \<Rightarrow> outcome" where
  "view_case msg d =
     (let tractorId = parseInt_str
            (case index1 (split_sp msg) of None \<Rightarrow> msg | Some w \<Rightarrow> if w = [] then msg else w)
      in case findTractor tractorId d of
           Some t \<Rightarrow> reply_only [details_text t, timage t, interested_text] d
         | None \<Rightarrow> reply_only [not_found_text] d)"

definition negotiate_case :: "string \<Rightarrow> string \<Rightarrow> data \<Rightarrow> outcome" where
  "negotiate_case msg userNumber d =
     (case parseInt (index1 (split_sp msg)) of
        None \<Rightarrow> reply_only [not_found_text] d
      | Some negotiateId \<Rightarrow>
          (case findTractor (Some negotiateId) d of
             None \<Rightarrow> reply_only [not_found_text] d
           | Some negotiateTractor \<Rightarrow>
               (let d1 = (case findUser userNumber d of
                            None \<Rightarrow> d\<lparr>users := users d @
                                      [\<lparr>phone = userNumber, name = None, currentNegotiation = None\<rparr>]\<rparr>
                          | Some u \<Rightarrow> d);
                    d2 = d1\<lparr>users := update_first (\<lambda>u. phone u = userNumber)
                           (\<lambda>u. u\<lparr>currentNegotiation :=
                                    Some \<lparr>tractorId = negotiateId, stage = ''name_collection''\<rparr>\<rparr>)
                           (users d1)\<rparr>
                in reply_written [negotiating_text negotiateTractor] d2)))"

text \<open>The guard of the name branch:
  \<^verbatim>\<open>user && user.currentNegotiation && user.currentNegotiation.stage === 'name_collection'\<close>\<close>

definition in_name_collection :: "user option \<Rightarrow> bool" where
  "in_name_collection user =
     (case user of None \<Rightarrow> False
      | Some u \<Rightarrow> (case currentNegotiation u of None \<Rightarrow> False
                  | Some n \<Rightarrow> stage n = ''name_collection''))"

definition name_case :: "string \<Rightarrow> string \<Rightarrow> data \<Rightarrow> outcome" where
  "name_case msg userNumber d =
     (if isValidName msg
      then (let d' = d\<lparr>users := update_first (\<lambda>u. phone u = userNumber)
                        (\<lambda>u. u\<lparr>name := Some (trim msg),
                               currentNegotiation :=
                                 map_option (\<lambda>n. n\<lparr>stage := ''offer_collection''\<rparr>)
                                   (currentNegotiation u)\<rparr>)
                        (users d)\<rparr>
            in reply_written [hello_text (Some (trim msg))] d')
      else reply_only [invalid_name_text] d)"

text \<open>The offer branch. The accepting branch sets \<^verbatim>\<open>currentNegotiation = null\<close> on the
  user found in the handler's collection and does not call \<^verbatim>\<open>writeData\<close>. Reading
  \<^verbatim>\<open>offerTractor.price\<close> of a tractor that was not found throws.\<close>

definition offer_case :: "string \<Rightarrow> string \<Rightarrow> data \<Rightarrow> error + outcome" where
  "offer_case msg userNumber d =
     (case findUser userNumber d of
        None \<Rightarrow> Inr (reply_only [no_negotiation_text] d)
      | Some userOffer \<Rightarrow>
          (case currentNegotiation userOffer of
             None \<Rightarrow> Inr (reply_only [no_negotiation_text] d)
           | Some n \<Rightarrow>
               if stage n = ''offer_collection''
               then (let offerAmount = parseInt (index1 (split_sp msg));
                         offerTractor = findTractor (Some (tractorId n)) d
                     in case offerAmount of
                          None \<Rightarrow> Inr (reply_only [invalid_number_text] d)
                        | Some a \<Rightarrow>
                            (case offerTractor of
                               None \<Rightarrow> Inl TypeError
                             | Some t \<Rightarrow>
                                 if (of_int a :: rat) \<ge> of_int (price t) * (9 / 10)
                                 then Inr \<lparr>twiml = [accepted_text (name userOffer) t a],
                                           mem = d\<lparr>users := update_first (\<lambda>u. phone u = userNumber)
                                                   (\<lambda>u. u\<lparr>currentNegotiation := None\<rparr>) (users d)\<rparr>,
                                           stored = d\<rparr>
                                 else Inr (reply_only [too_low_text t] d)))
               else Inr (reply_only [no_negotiation_text] d)))"

text \<open>The handler of \<^verbatim>\<open>POST /whatsapp\<close>: \<open>d\<close> is the content of \<^verbatim>\<open>data.json\<close> when
  the request arrives; the cases of \<^verbatim>\<open>switch (true)\<close> are tried in the source's
  order.\<close>

definition whatsapp :: "request \<Rightarrow> data \<Rightarrow> error + outcome" where
  "whatsapp req d =
     (let msg = incomingMsg req;
          userNumber = From req;
          user = findUser userNumber d
      in if msg = ''start'' then Inr (reply_only [start_text] d)
         else if msg = ''recommend'' then Inr (reply_only [recommend_text] d)
         else if msg \<in> set [''farming'', ''landscaping'', ''construction'']
           then Inr (reply_only [category_text msg (tractors d)] d)
         else if msg = ''browse'' then Inr (reply_only [browse_text (tractors d)] d)
         else if startsWith msg ''view'' \<or> digitsOnly msg then Inr (view_case msg d)
         else if startsWith msg ''negotiate'' then Inr (negotiate_case msg userNumber d)
         else if in_name_collection user then Inr (name_case msg userNumber d)
         else if startsWith msg ''offer'' then offer_case msg userNumber d
         else Inr (reply_only [default_text] d))"

section \<open>Vocabulary of the statements\<close>

text \<open>The text the user sent: the body of the request, empty when it is missing.\<close>

definition bodyText :: "request \<Rightarrow> string" where
  "bodyText req = (case Body req of None \<Rightarrow> [] | Some b \<Rightarrow> b)"

text \<open>One of the cases that \<^verbatim>\<open>switch (true)\<close> tries before the name branch matches the
  message: start, recommend, a category word, browse, view or digits only, negotiate.\<close>

definition earlier_case :: "string \<Rightarrow> bool" where
  "earlier_case msg =
     (msg = ''start'' \<or> msg = ''recommend''
      \<or> msg \<in> set [''farming'', ''landscaping'', ''construction'']
      \<or> msg = ''browse'' \<or> startsWith msg ''view'' \<or> digitsOnly msg
      \<or> startsWith msg ''negotiate'')"

text \<open>Example data: a catalogue of two tractors, and the stores in which Jane has no
  session, is asked for her name, and is asked for an offer (as is Sam, on the other
  tractor).\<close>

definition jane :: string where
  "jane = ''whatsapp:+254700000001''"

definition sam :: string where
  "sam = ''whatsapp:+254700000002''"

definition tractor1 :: tractor where
  "tractor1 = \<lparr>tid = 1, tname = ''Kubota L2501'', price = 12345, condition = ''New'',
     useCase = ''Landscaping'', timage = ''https://example.com/1.jpg''\<rparr>"

definition tractor2 :: tractor where
  "tractor2 = \<lparr>tid = 2, tname = ''John Deere 5050D'', price = 10000, condition = ''Used'',
     useCase = ''Farming'', timage = ''https://example.com/2.jpg''\<rparr>"

definition store_fresh :: data where
  "store_fresh = \<lparr>users = [], tractors = [tractor1, tractor2]\<rparr>"

definition jane_naming :: user where
  "jane_naming = \<lparr>phone = jane, name = None,
     currentNegotiation = Some \<lparr>tractorId = 2, stage = ''name_collection''\<rparr>\<rparr>"

definition jane_offering :: user where
  "jane_offering = \<lparr>phone = jane, name = Some ''jane doe'',
     currentNegotiation = Some \<lparr>tractorId = 2, stage = ''offer_collection''\<rparr>\<rparr>"

definition sam_offering :: user where
  "sam_offering = \<lparr>phone = sam, name = Some ''sam'',
     currentNegotiation = Some \<lparr>tractorId = 1, stage = ''offer_collection''\<rparr>\<rparr>"

definition store_naming :: data where
  "store_naming = \<lparr>users = [jane_naming], tractors = [tractor1, tractor2]\<rparr>"

definition store_offering :: data where
  "store_offering = \<lparr>users = [jane_offering, sam_offering], tractors = [tractor1, tractor2]\<rparr>"

definition message_from :: "string \<Rightarrow> string \<Rightarrow> request" where
  "message_from who b = \<lparr>Body = Some b, From = who\<rparr>"

section \<open>Prefixes, lookups and in-place updates\<close>

lemma startsWith_iff: "startsWith s p \<longleftrightarrow> (\<exists>r. s = p @ r)"
proof
  assume "startsWith s p"
  then have "s = p @ drop (length p) s"
    unfolding startsWith_def by (metis append_take_drop_id)
  then show "\<exists>r. s = p @ r" ..
next
  assume "\<exists>r. s = p @ r"
  then show "startsWith s p" unfolding startsWith_def by auto
qed

lemma find_update_first_same:
  "(\<And>x. P x \<Longrightarrow> P (f x)) \<Longrightarrow> find P (update_first P f xs) = map_option f (find P xs)"
  by (induction xs) auto

lemma find_update_first_other:
  "(\<And>x. P x \<Longrightarrow> \<not> Q x \<and> \<not> Q (f x)) \<Longrightarrow> find Q (update_first P f xs) = find Q xs"
  by (induction xs) auto

lemma find_append_single:
  "find P (xs @ [y]) = (case find P xs of Some x \<Rightarrow> Some x | None \<Rightarrow> if P y then Some y else None)"
  by (induction xs) auto

lemma dispatch_negotiate:
  assumes "startsWith (incomingMsg req) ''negotiate''"
  shows "whatsapp req d = Inr (negotiate_case (incomingMsg req) (From req) d)"
proof -
  from assms obtain r where m: "incomingMsg req = ''negotiate'' @ r"
    unfolding startsWith_iff by blast
  show ?thesis
    unfolding whatsapp_def Let_def m
    by (simp add: startsWith_def digitsOnly_def isDigit_def code_def)
qed

section \<open>Lower-casing, trimming and the name pattern\<close>

lemma code_char_of: "n < 256 \<Longrightarrow> code (char_of n) = n"
  by (simp add: code_def)

lemma eq_hyphen_iff: "c = CHR ''-'' \<longleftrightarrow> code c = 45"
proof -
  have "(of_char c :: nat) = of_char (CHR ''-'') \<longleftrightarrow> c = CHR ''-''" by (rule of_char_eq_iff)
  then show ?thesis by (simp add: code_def)
qed

lemma eq_apostrophe_iff: "c = CHR 0x27 \<longleftrightarrow> code c = 39"
proof -
  have "(of_char c :: nat) = of_char (CHR 0x27) \<longleftrightarrow> c = CHR 0x27" by (rule of_char_eq_iff)
  then show ?thesis by (simp add: code_def)
qed

lemma code_toLowerCase_char:
  "code (toLowerCase_char c) =
     (if isUpper c \<or> (192 \<le> code c \<and> code c \<le> 222 \<and> code c \<noteq> 215) then code c + 32 else code c)"
  by (auto simp: toLowerCase_char_def isUpper_def code_char_of)

lemma isWhiteSpace_toLowerCase_char: "isWhiteSpace (toLowerCase_char c) = isWhiteSpace c"
  unfolding isWhiteSpace_def code_toLowerCase_char by (auto simp: isUpper_def)

lemma nameChar_toLowerCase_char: "nameChar (toLowerCase_char c) = nameChar c"
  unfolding nameChar_def eq_hyphen_iff eq_apostrophe_iff isWhiteSpace_def isLower_def isUpper_def
    code_toLowerCase_char
  by (auto simp: isUpper_def)

lemma trim_map:
  assumes "\<And>c. isWhiteSpace (f c) = isWhiteSpace c"
  shows "trim (map f s) = map f (trim s)"
proof -
  have dw: "dropWhile isWhiteSpace (map f xs) = map f (dropWhile isWhiteSpace xs)" for xs
    by (induction xs) (simp_all add: assms)
  show ?thesis by (simp add: trim_def dw rev_map)
qed

lemma trim_toLowerCase: "trim (toLowerCase s) = toLowerCase (trim s)"
  unfolding toLowerCase_def by (rule trim_map) (rule isWhiteSpace_toLowerCase_char)

lemma dropWhile_rev_prefix:
  assumes "a = [] \<or> \<not> P (hd a)"
  shows "dropWhile P (rev (dropWhile P (rev a))) = rev (dropWhile P (rev a))"
proof (cases "dropWhile P (rev a) = []")
  case True
  then show ?thesis by (metis dropWhile.simps(1) rev.simps(1))
next
  case False
  define b where "b = dropWhile P (rev a)"
  have "rev a = takeWhile P (rev a) @ b" by (simp add: b_def)
  then have a: "a = rev b @ rev (takeWhile P (rev a))"
    by (metis rev_append rev_rev_ident)
  from False have "rev b \<noteq> []" by (simp add: b_def)
  with a have "hd a = hd (rev b)" by (metis hd_append2)
  moreover from False a have "a \<noteq> []" by (auto simp: b_def)
  ultimately have "\<not> P (hd (rev b))" using assms by auto
  with \<open>rev b \<noteq> []\<close> have "dropWhile P (rev b) = rev b"
    by (cases "rev b") auto
  then show ?thesis by (simp add: b_def)
qed

lemma trim_idem: "trim (trim s) = trim s"
proof -
  define a where "a = dropWhile isWhiteSpace s"
  have ha: "a = [] \<or> \<not> isWhiteSpace (hd a)"
    unfolding a_def by (metis hd_dropWhile)
  have "trim (trim s) = rev (dropWhile isWhiteSpace (rev (dropWhile isWhiteSpace (rev (dropWhile isWhiteSpace (rev a))))))"
    by (simp add: trim_def a_def)
  also have "\<dots> = rev (dropWhile isWhiteSpace (rev (rev (dropWhile isWhiteSpace (rev a)))))"
    by (simp only: dropWhile_rev_prefix [of a isWhiteSpace, OF ha])
  also have "\<dots> = trim s"
    by (simp add: trim_def a_def)
  finally show ?thesis .
qed

lemma set_trim_subset: "set (trim s) \<subseteq> set s"
  by (auto simp: trim_def dest!: set_dropWhileD)

lemma set_subset_trim: "x \<in> set s \<Longrightarrow> x \<in> set (trim s) \<or> isWhiteSpace x"
proof -
  assume x: "x \<in> set s"
  define a where "a = dropWhile isWhiteSpace s"
  have "s = takeWhile isWhiteSpace s @ a" by (simp add: a_def)
  then have "set s = set (takeWhile isWhiteSpace s) \<union> set a" by (metis set_append)
  moreover have "rev a = takeWhile isWhiteSpace (rev a) @ dropWhile isWhiteSpace (rev a)" by simp
  then have "set (rev a) = set (takeWhile isWhiteSpace (rev a)) \<union> set (dropWhile isWhiteSpace (rev a))"
    by (metis set_append)
  ultimately have "x \<in> set (takeWhile isWhiteSpace s) \<or> x \<in> set (takeWhile isWhiteSpace (rev a))
      \<or> x \<in> set (dropWhile isWhiteSpace (rev a))"
    using x by auto
  then show ?thesis
    by (auto simp: trim_def a_def dest: set_takeWhileD)
qed

lemma list_all_nameChar_trim: "list_all nameChar (trim s) = list_all nameChar s"
proof
  assume "list_all nameChar (trim s)"
  then show "list_all nameChar s"
    unfolding list_all_iff using set_subset_trim nameChar_def by blast
next
  assume "list_all nameChar s"
  then show "list_all nameChar (trim s)"
    unfolding list_all_iff using set_trim_subset by blast
qed

lemma isValidName_normalized:
  "isValidName (trim (toLowerCase b)) \<longleftrightarrow> list_all nameChar b \<and> 2 \<le> length (trim b)"
proof -
  have 1: "list_all nameChar (trim (toLowerCase b)) = list_all nameChar b"
    by (simp add: list_all_nameChar_trim) (simp add: toLowerCase_def list_all_iff nameChar_toLowerCase_char)
  have "length (toLowerCase (trim b)) = length (trim b)"
    by (simp add: toLowerCase_def)
  then have len: "length (trim (toLowerCase b)) = length (trim b)"
    by (simp only: trim_toLowerCase)
  then have 2: "length (trim (trim (toLowerCase b))) = length (trim b)"
    by (simp only: trim_idem)
  have 3: "2 \<le> length (trim b) \<Longrightarrow> trim (toLowerCase b) \<noteq> []"
    using len by auto
  show ?thesis
    unfolding isValidName_def 1 2 using 3 by auto
qed

section \<open>Dispatch and the offer branch\<close>

lemma dispatch_offer:
  assumes "startsWith (incomingMsg req) ''offer''"
    and "\<not> in_name_collection (findUser (From req) d)"
  shows "whatsapp req d = offer_case (incomingMsg req) (From req) d"
proof -
  from assms(1) obtain r where m: "incomingMsg req = ''offer'' @ r"
    unfolding startsWith_iff by blast
  show ?thesis
    unfolding whatsapp_def Let_def m using assms(2)
    by (simp add: startsWith_def digitsOnly_def isDigit_def code_def)
qed

lemma dispatch_name:
  assumes "\<not> earlier_case (incomingMsg req)"
    and "in_name_collection (findUser (From req) d)"
  shows "whatsapp req d = Inr (name_case (incomingMsg req) (From req) d)"
  using assms unfolding whatsapp_def earlier_case_def Let_def by simp

lemma offer_outcome:
  assumes "startsWith (incomingMsg req) ''offer''"
    and "findUser (From req) d = Some u"
    and "currentNegotiation u = Some n"
    and "stage n = ''offer_collection''"
    and "find (\<lambda>t. tid t = tractorId n) (tractors d) = Some t"
    and "parseInt (index1 (split_sp (incomingMsg req))) = Some a"
  shows "whatsapp req d =
     Inr (if of_int (price t) * (9 / 10) \<le> (of_int a :: rat)
          then \<lparr>twiml = [accepted_text (name u) t a],
                mem = d\<lparr>users := update_first (\<lambda>v. phone v = From req)
                        (\<lambda>v. v\<lparr>currentNegotiation := None\<rparr>) (users d)\<rparr>,
                stored = d\<rparr>
          else \<lparr>twiml = [too_low_text t], mem = d, stored = d\<rparr>)"
proof -
  have "\<not> in_name_collection (findUser (From req) d)"
    using assms(2-4) by (simp add: in_name_collection_def)
  then have "whatsapp req d = offer_case (incomingMsg req) (From req) d"
    using assms(1) by (simp add: dispatch_offer)
  then show ?thesis
    using assms(2-6) by (simp add: offer_case_def findTractor_def reply_only_def Let_def)
qed

lemma cleared_session:
  assumes "findUser ph d = Some u"
  shows "findUser ph (d\<lparr>users := update_first (\<lambda>v. phone v = ph)
            (\<lambda>v. v\<lparr>currentNegotiation := None\<rparr>) (users d)\<rparr>)
         = Some (u\<lparr>currentNegotiation := None\<rparr>)"
proof -
  have "find (\<lambda>v. phone v = ph) (update_first (\<lambda>v. phone v = ph)
            (\<lambda>v. v\<lparr>currentNegotiation := None\<rparr>) (users d))
        = map_option (\<lambda>v. v\<lparr>currentNegotiation := None\<rparr>) (find (\<lambda>v. phone v = ph) (users d))"
    by (rule find_update_first_same) simp
  with assms show ?thesis by (simp add: findUser_def)
qed







section \<open>Starting a negotiation\<close>

text \<open>
  C9. A message that starts with "negotiate" is handled by the negotiate branch. When the
  number after the first space is the id of a tractor of the catalogue, the reply names
  that tractor, the collection is written to the store, and there the first user with the
  sender's number (appended when there was none, with the name it had otherwise) has a
  negotiation with that \<open>tractorId\<close> in stage \<open>name_collection\<close>; the catalogue and
  every other number's user are as before. When the number does not resolve, the reply is
  the not-found text and nothing is changed or written.
\<close>

theorem negotiate_starts_name_collection:
  assumes "startsWith (incomingMsg req) ''negotiate''"
  shows "(\<forall>i t. parseInt (index1 (split_sp (incomingMsg req))) = Some i
             \<and> find (\<lambda>t. tid t = i) (tractors d) = Some t \<longrightarrow>
           (\<exists>out u. whatsapp req d = Inr out \<and> twiml out = [negotiating_text t]
              \<and> stored out = mem out \<and> tractors (stored out) = tractors d
              \<and> findUser (From req) (stored out) = Some u
              \<and> phone u = From req
              \<and> currentNegotiation u = Some \<lparr>tractorId = i, stage = ''name_collection''\<rparr>
              \<and> name u = Option.bind (findUser (From req) d) name
              \<and> (\<forall>ph. ph \<noteq> From req \<longrightarrow> findUser ph (stored out) = findUser ph d)))
       \<and> (findTractor (parseInt (index1 (split_sp (incomingMsg req)))) d = None \<longrightarrow>
           whatsapp req d = Inr \<lparr>twiml = [not_found_text], mem = d, stored = d\<rparr>)"
proof (intro conjI allI impI)
  fix i t
  assume h: "parseInt (index1 (split_sp (incomingMsg req))) = Some i
             \<and> find (\<lambda>t. tid t = i) (tractors d) = Some t"
  define nu where "nu = \<lparr>tractorId = i, stage = ''name_collection''\<rparr>"
  define P where "P = (\<lambda>u::user. phone u = From req)"
  define f where "f = (\<lambda>u::user. u\<lparr>currentNegotiation := Some nu\<rparr>)"
  have Pf: "\<And>x. P x \<Longrightarrow> P (f x)" by (simp add: P_def f_def)
  have fus: "\<And>xs. find P (update_first P f xs) = map_option f (find P xs)"
    by (rule find_update_first_same) (rule Pf)
  have fuo: "\<And>ph xs. ph \<noteq> From req \<Longrightarrow>
      find (\<lambda>u. phone u = ph) (update_first P f xs) = find (\<lambda>u. phone u = ph) xs"
    by (rule find_update_first_other) (simp add: P_def f_def)
  show "\<exists>out u. whatsapp req d = Inr out \<and> twiml out = [negotiating_text t]
              \<and> stored out = mem out \<and> tractors (stored out) = tractors d
              \<and> findUser (From req) (stored out) = Some u
              \<and> phone u = From req
              \<and> currentNegotiation u = Some \<lparr>tractorId = i, stage = ''name_collection''\<rparr>
              \<and> name u = Option.bind (findUser (From req) d) name
              \<and> (\<forall>ph. ph \<noteq> From req \<longrightarrow> findUser ph (stored out) = findUser ph d)"
  proof (cases "find P (users d)")
    case None
    define nw where "nw = \<lparr>phone = From req, name = None, currentNegotiation = None\<rparr>"
    define d2 where "d2 = d\<lparr>users := update_first P f (users d @ [nw])\<rparr>"
    have run: "whatsapp req d = Inr (reply_written [negotiating_text t] d2)"
      using h None
      by (simp add: dispatch_negotiate [OF assms] negotiate_case_def findTractor_def
          findUser_def Let_def d2_def P_def f_def nu_def nw_def)
    have Pnw: "P nw" by (simp add: P_def nw_def)
    have fnd: "find P (users d2) = Some (f nw)"
      using None Pnw by (simp add: d2_def fus find_append_single)
    have oth: "\<And>ph. ph \<noteq> From req \<Longrightarrow> find (\<lambda>u. phone u = ph) (users d2) = find (\<lambda>u. phone u = ph) (users d)"
      by (simp add: d2_def fuo find_append_single nw_def split: option.splits)
    show ?thesis
      using run fnd oth None
      by (simp add: reply_written_def findUser_def P_def f_def nu_def nw_def d2_def)
  next
    case (Some u0)
    define d2 where "d2 = d\<lparr>users := update_first P f (users d)\<rparr>"
    have run: "whatsapp req d = Inr (reply_written [negotiating_text t] d2)"
      using h Some
      by (simp add: dispatch_negotiate [OF assms] negotiate_case_def findTractor_def
          findUser_def Let_def d2_def P_def f_def nu_def)
    have fnd: "find P (users d2) = Some (f u0)"
      using Some by (simp add: d2_def fus)
    have ph: "phone u0 = From req"
      using Some by (auto simp: P_def find_Some_iff)
    have oth: "\<And>ph. ph \<noteq> From req \<Longrightarrow> find (\<lambda>u. phone u = ph) (users d2) = find (\<lambda>u. phone u = ph) (users d)"
      by (simp add: d2_def fuo)
    show ?thesis
      using run fnd oth Some ph
      by (simp add: reply_written_def findUser_def P_def f_def nu_def d2_def)
  qed
next
  assume "findTractor (parseInt (index1 (split_sp (incomingMsg req)))) d = None"
  then show "whatsapp req d = Inr \<lparr>twiml = [not_found_text], mem = d, stored = d\<rparr>"
    by (simp add: dispatch_negotiate [OF assms] negotiate_case_def findTractor_def reply_only_def
        split: option.splits)
qed

theorem negotiate_starts_name_collection_witness:
  "(\<exists>out u. whatsapp (message_from jane ''Negotiate 2'') store_fresh = Inr out
      \<and> twiml out = [negotiating_text tractor2] \<and> stored out = mem out
      \<and> findUser jane (stored out) = Some u
      \<and> currentNegotiation u = Some \<lparr>tractorId = 2, stage = ''name_collection''\<rparr>)
   \<and> whatsapp (message_from jane ''negotiate 7'') store_fresh
        = Inr \<lparr>twiml = [not_found_text], mem = store_fresh, stored = store_fresh\<rparr>"
proof -
  have s1: "startsWith (incomingMsg (message_from jane ''Negotiate 2'')) ''negotiate''"
    by code_simp
  have r1: "parseInt (index1 (split_sp (incomingMsg (message_from jane ''Negotiate 2'')))) = Some 2
      \<and> find (\<lambda>t. tid t = 2) (tractors store_fresh) = Some tractor2"
    by code_simp
  have s2: "startsWith (incomingMsg (message_from jane ''negotiate 7'')) ''negotiate''"
    by code_simp
  have r2: "findTractor (parseInt (index1 (split_sp (incomingMsg (message_from jane ''negotiate 7'')))))
      store_fresh = None"
    by code_simp
  have fr: "From (message_from jane ''Negotiate 2'') = jane"
    by (simp add: message_from_def)
  from negotiate_starts_name_collection [OF s1, of store_fresh] r1
  have a: "\<exists>out u. whatsapp (message_from jane ''Negotiate 2'') store_fresh = Inr out
      \<and> twiml out = [negotiating_text tractor2] \<and> stored out = mem out
      \<and> findUser jane (stored out) = Some u
      \<and> currentNegotiation u = Some \<lparr>tractorId = 2, stage = ''name_collection''\<rparr>"
    unfolding fr by blast
  from negotiate_starts_name_collection [OF s2, of store_fresh] r2
  have b: "whatsapp (message_from jane ''negotiate 7'') store_fresh
        = Inr \<lparr>twiml = [not_found_text], mem = store_fresh, stored = store_fresh\<rparr>"
    by blast
  from a b show ?thesis by blast
qed

section \<open>Offers\<close>

lemma From_message_from: "From (message_from who b) = who"
  by (simp add: message_from_def)

lemma jane_in_store_offering: "findUser jane store_offering = Some jane_offering"
  by (simp add: findUser_def store_offering_def jane_offering_def)


lemma jane_in_store_naming: "findUser jane store_naming = Some jane_naming"
  by (simp add: findUser_def store_naming_def jane_naming_def)

lemma tractor2_in_catalogue: "find (\<lambda>t. tid t = 2) (tractors store_offering) = Some tractor2"
  by (simp add: store_offering_def tractor1_def tractor2_def)


lemma jane_offer_9500_accepted:
  "whatsapp (message_from jane ''offer 9500'') store_offering =
     Inr \<lparr>twiml = [accepted_text (Some ''jane doe'') tractor2 9500],
          mem = store_offering\<lparr>users := update_first (\<lambda>v. phone v = jane)
                  (\<lambda>v. v\<lparr>currentNegotiation := None\<rparr>) (users store_offering)\<rparr>,
          stored = store_offering\<rparr>"
proof -
  let ?req = "message_from jane ''offer 9500''"
  let ?n = "\<lparr>tractorId = 2, stage = ''offer_collection''\<rparr>"
  have h1: "startsWith (incomingMsg ?req) ''offer''" by code_simp
  have h2: "findUser (From ?req) store_offering = Some jane_offering"
    by (simp add: From_message_from jane_in_store_offering)
  have h3: "currentNegotiation jane_offering = Some ?n" by (simp add: jane_offering_def)
  have h4: "stage ?n = ''offer_collection''" by simp
  have h5: "find (\<lambda>t. tid t = tractorId ?n) (tractors store_offering) = Some tractor2"
    by (simp add: tractor2_in_catalogue)
  have h6: "parseInt (index1 (split_sp (incomingMsg ?req))) = Some 9500" by code_simp
  have c: "of_int (price tractor2) * (9 / 10) \<le> (of_int 9500 :: rat)"
    by (simp add: tractor2_def)
  have n: "name jane_offering = Some ''jane doe''"
    by (simp add: jane_offering_def)
  from offer_outcome [OF h1 h2 h3 h4 h5 h6] c n show ?thesis
    by (simp add: From_message_from)
qed


text \<open>The offer branch never writes; every other branch ends with the store equal to the
  handler's collection.\<close>

lemma offer_case_written:
  "offer_case msg ph d = Inr out \<Longrightarrow> stored out = d"
  by (auto simp: offer_case_def reply_only_def Let_def split: option.splits if_splits)

lemma written_except_in_offer_case:
  assumes "whatsapp req d = Inr out"
  shows "stored out = mem out \<or> (startsWith (incomingMsg req) ''offer'' \<and> stored out = d)"
proof (cases "whatsapp req d = offer_case (incomingMsg req) (From req) d
    \<and> startsWith (incomingMsg req) ''offer''")
  case True
  with assms show ?thesis by (auto dest: offer_case_written)
next
  case False
  with assms have "stored out = mem out"
    by (auto simp: whatsapp_def Let_def reply_only_def reply_written_def view_case_def
        negotiate_case_def name_case_def split: if_splits option.splits)
  then show ?thesis ..
qed

text \<open>
  C1. An accepted offer should leave the sender's session without a negotiation in the
  persisted store. The accepting branch replies and clears the negotiation in the
  handler's collection, but \<^verbatim>\<open>writeData\<close> is not called: with Jane asked for an offer on
  tractor 2 (price 10000), "offer 9500" is accepted, and the store still holds her
  negotiation in stage \<open>offer_collection\<close>.
\<close>

theorem accepted_offer_leaves_store_unchanged:
  "\<exists>out. whatsapp (message_from jane ''offer 9500'') store_offering = Inr out
     \<and> twiml out = [accepted_text (Some ''jane doe'') tractor2 9500]
     \<and> findUser jane (mem out) = Some (jane_offering\<lparr>currentNegotiation := None\<rparr>)
     \<and> findUser jane (stored out) = Some jane_offering
     \<and> currentNegotiation jane_offering = Some \<lparr>tractorId = 2, stage = ''offer_collection''\<rparr>"
proof -
  have "currentNegotiation jane_offering = Some \<lparr>tractorId = 2, stage = ''offer_collection''\<rparr>"
    by (simp add: jane_offering_def)
  then show ?thesis
    using jane_offer_9500_accepted cleared_session [OF jane_in_store_offering] jane_in_store_offering
    by simp
qed

text \<open>
  C2. Every change of a session should be persisted, so that the store after the request
  equals the handler's collection. After the accepted offer of C1 the two differ: the store
  is the one the request found.
\<close>

theorem accepted_offer_store_differs_from_memory:
  "\<exists>out. whatsapp (message_from jane ''offer 9500'') store_offering = Inr out
     \<and> stored out = store_offering \<and> mem out \<noteq> stored out"
proof -
  have "findUser jane (store_offering\<lparr>users := update_first (\<lambda>v. phone v = jane)
                  (\<lambda>v. v\<lparr>currentNegotiation := None\<rparr>) (users store_offering)\<rparr>)
        \<noteq> findUser jane store_offering"
    using cleared_session [OF jane_in_store_offering] jane_in_store_offering
    by (simp add: jane_offering_def)
  then have "store_offering\<lparr>users := update_first (\<lambda>v. phone v = jane)
                  (\<lambda>v. v\<lparr>currentNegotiation := None\<rparr>) (users store_offering)\<rparr>
        \<noteq> store_offering"
    by auto
  with jane_offer_9500_accepted show ?thesis by simp
qed








section \<open>Collecting the name\<close>

lemma incomingMsg_bodyText: "incomingMsg req = trim (toLowerCase (bodyText req))"
  by (simp add: incomingMsg_def bodyText_def trim_def toLowerCase_def split: option.splits)

lemma trim_incomingMsg: "trim (incomingMsg req) = incomingMsg req"
  by (simp add: incomingMsg_bodyText trim_idem)

lemma findUser_update_first:
  assumes "findUser ph d = Some u" and "\<And>v. phone (f v) = phone v"
  shows "findUser ph (d\<lparr>users := update_first (\<lambda>v. phone v = ph) f (users d)\<rparr>) = Some (f u)"
proof -
  have "find (\<lambda>v. phone v = ph) (update_first (\<lambda>v. phone v = ph) f (users d))
        = map_option f (find (\<lambda>v. phone v = ph) (users d))"
    by (rule find_update_first_same) (simp add: assms(2))
  with assms(1) show ?thesis by (simp add: findUser_def)
qed

lemma name_case_valid:
  assumes "findUser ph d = Some u" and "currentNegotiation u = Some n" and "isValidName msg"
  shows "\<exists>out. name_case msg ph d = out \<and> twiml out = [hello_text (Some (trim msg))]
      \<and> stored out = mem out \<and> tractors (stored out) = tractors d
      \<and> findUser ph (stored out)
          = Some (u\<lparr>name := Some (trim msg),
                    currentNegotiation := Some (n\<lparr>stage := ''offer_collection''\<rparr>)\<rparr>)"
proof -
  define f where "f = (\<lambda>v::user. v\<lparr>name := Some (trim msg),
      currentNegotiation := map_option (\<lambda>n. n\<lparr>stage := ''offer_collection''\<rparr>) (currentNegotiation v)\<rparr>)"
  have "findUser ph (d\<lparr>users := update_first (\<lambda>v. phone v = ph) f (users d)\<rparr>) = Some (f u)"
    by (rule findUser_update_first [OF assms(1)]) (simp add: f_def)
  moreover have "f u = u\<lparr>name := Some (trim msg),
                    currentNegotiation := Some (n\<lparr>stage := ''offer_collection''\<rparr>)\<rparr>"
    by (simp add: f_def assms(2))
  ultimately show ?thesis
    using assms(3) by (simp add: name_case_def Let_def reply_written_def f_def)
qed

lemma jane_is_naming: "in_name_collection (findUser jane store_naming)"
  by (simp add: jane_in_store_naming in_name_collection_def jane_naming_def)

lemma jane_naming_negotiation:
  "currentNegotiation jane_naming = Some \<lparr>tractorId = 2, stage = ''name_collection''\<rparr>"
  by (simp add: jane_naming_def)

lemma jane_doe_outcome:
  "\<exists>out. whatsapp (message_from jane ''Jane Doe'') store_naming = Inr out
     \<and> twiml out = [hello_text (Some ''jane doe'')] \<and> stored out = mem out
     \<and> findUser jane (stored out)
         = Some (jane_naming\<lparr>name := Some ''jane doe'',
              currentNegotiation := Some \<lparr>tractorId = 2, stage = ''offer_collection''\<rparr>\<rparr>)"
proof -
  let ?req = "message_from jane ''Jane Doe''"
  have m: "incomingMsg ?req = ''jane doe''" by code_simp
  have ne: "\<not> earlier_case (incomingMsg ?req)" unfolding m by code_simp
  have inn: "in_name_collection (findUser (From ?req) store_naming)"
    by (simp add: From_message_from jane_is_naming)
  have v: "isValidName ''jane doe''" by code_simp
  have t: "trim ''jane doe'' = ''jane doe''" by code_simp
  have run: "whatsapp ?req store_naming = Inr (name_case ''jane doe'' jane store_naming)"
    using dispatch_name [OF ne inn] by (simp add: m From_message_from)
  from name_case_valid [OF jane_in_store_naming jane_naming_negotiation v]
  show ?thesis unfolding run t by auto
qed

text \<open>
  C3. For a sender whose negotiation is in stage \<open>name_collection\<close>, every message that
  matches none of the cases tried before the name branch (start, recommend, a category
  word, browse, view or digits only, negotiate) is handled by the name branch, and the reply
  is the offer prompt for a valid name and the invalid-name text otherwise. The commands
  keep their meaning: "browse" is answered with the listing, and nothing is changed, so the
  stage remains \<open>name_collection\<close>.
\<close>

theorem name_stage_routing:
  assumes "in_name_collection (findUser (From req) d)"
  shows "(\<not> earlier_case (incomingMsg req) \<longrightarrow>
           whatsapp req d = Inr (name_case (incomingMsg req) (From req) d)
           \<and> (\<exists>out. whatsapp req d = Inr out
                \<and> twiml out = [if isValidName (incomingMsg req)
                                then hello_text (Some (incomingMsg req)) else invalid_name_text]))
       \<and> (incomingMsg req = ''browse'' \<longrightarrow>
           whatsapp req d = Inr \<lparr>twiml = [browse_text (tractors d)], mem = d, stored = d\<rparr>)"
proof (intro conjI impI)
  assume "\<not> earlier_case (incomingMsg req)"
  then show run: "whatsapp req d = Inr (name_case (incomingMsg req) (From req) d)"
    using assms by (rule dispatch_name)
  show "\<exists>out. whatsapp req d = Inr out
                \<and> twiml out = [if isValidName (incomingMsg req)
                                then hello_text (Some (incomingMsg req)) else invalid_name_text]"
    unfolding run
    by (simp add: name_case_def Let_def reply_written_def reply_only_def trim_incomingMsg)
next
  assume "incomingMsg req = ''browse''"
  then show "whatsapp req d = Inr \<lparr>twiml = [browse_text (tractors d)], mem = d, stored = d\<rparr>"
    by (simp add: whatsapp_def Let_def reply_only_def)
qed

text \<open>C3, at concrete inputs: while Jane is asked for her name, "offer 5000" is handled as
  an invalid name and "Browse" is answered with the listing.\<close>

theorem name_stage_routing_witness:
  "whatsapp (message_from jane ''offer 5000'') store_naming
     = Inr (name_case ''offer 5000'' jane store_naming)
   \<and> (\<exists>out. whatsapp (message_from jane ''offer 5000'') store_naming = Inr out
         \<and> twiml out = [invalid_name_text])
   \<and> whatsapp (message_from jane ''Browse'') store_naming
       = Inr \<lparr>twiml = [browse_text (tractors store_naming)], mem = store_naming,
              stored = store_naming\<rparr>"
proof -
  let ?o = "message_from jane ''offer 5000''"
  let ?b = "message_from jane ''Browse''"
  have mo: "incomingMsg ?o = ''offer 5000''" by code_simp
  have mb: "incomingMsg ?b = ''browse''" by code_simp
  have io: "in_name_collection (findUser (From ?o) store_naming)"
    by (simp add: From_message_from jane_is_naming)
  have ib: "in_name_collection (findUser (From ?b) store_naming)"
    by (simp add: From_message_from jane_is_naming)
  have ne: "\<not> earlier_case (incomingMsg ?o)" unfolding mo by code_simp
  have nv: "isValidName ''offer 5000'' = False" by code_simp
  from name_stage_routing [OF io] ne
  have "whatsapp ?o store_naming = Inr (name_case (incomingMsg ?o) (From ?o) store_naming)
      \<and> (\<exists>out. whatsapp ?o store_naming = Inr out
            \<and> twiml out = [if isValidName (incomingMsg ?o)
                            then hello_text (Some (incomingMsg ?o)) else invalid_name_text])"
    by blast
  then have a: "whatsapp ?o store_naming = Inr (name_case ''offer 5000'' jane store_naming)
      \<and> (\<exists>out. whatsapp ?o store_naming = Inr out \<and> twiml out = [invalid_name_text])"
    unfolding mo From_message_from nv if_False .
  from name_stage_routing [OF ib] mb
  have b: "whatsapp ?b store_naming
       = Inr \<lparr>twiml = [browse_text (tractors store_naming)], mem = store_naming,
              stored = store_naming\<rparr>"
    by blast
  from a b show ?thesis by blast
qed

text \<open>
  C3 as first stated (every input, "browse" included, is a name attempt) fails: while Jane
  is asked for her name, "browse" is not answered with the invalid-name text.
\<close>

theorem browse_during_name_collection:
  "in_name_collection (findUser jane store_naming)
   \<and> whatsapp (message_from jane ''browse'') store_naming
       = Inr \<lparr>twiml = [browse_text (tractors store_naming)], mem = store_naming,
              stored = store_naming\<rparr>
   \<and> browse_text (tractors store_naming) \<noteq> invalid_name_text"
proof -
  have m: "incomingMsg (message_from jane ''browse'') = ''browse''" by code_simp
  have run: "whatsapp (message_from jane ''browse'') store_naming
       = Inr \<lparr>twiml = [browse_text (tractors store_naming)], mem = store_naming,
              stored = store_naming\<rparr>"
    by (simp add: whatsapp_def Let_def m reply_only_def)
  have ne: "browse_text (tractors store_naming) \<noteq> invalid_name_text"
    by (simp add: browse_text_def invalid_name_text_def createResponseMessage_def robot_def
        cross_mark_def)
  from jane_is_naming run ne show ?thesis by blast
qed

text \<open>
  C4. For a sender in stage \<open>name_collection\<close> whose text consists of name characters
  only, has a trimmed length of at least 2 and, lower-cased and trimmed, matches none of the
  earlier cases, the name stored is the lower-cased, trimmed text, the stage becomes
  \<open>offer_collection\<close>, and the collection is written to the store.
\<close>

theorem valid_name_stored_lower_cased:
  assumes "findUser (From req) d = Some u"
    and "currentNegotiation u = Some n"
    and "stage n = ''name_collection''"
    and "\<not> earlier_case (incomingMsg req)"
    and "list_all nameChar (bodyText req)"
    and "2 \<le> length (trim (bodyText req))"
  shows "\<exists>out. whatsapp req d = Inr out
      \<and> twiml out = [hello_text (Some (trim (toLowerCase (bodyText req))))]
      \<and> stored out = mem out
      \<and> findUser (From req) (stored out)
          = Some (u\<lparr>name := Some (trim (toLowerCase (bodyText req))),
                    currentNegotiation := Some (n\<lparr>stage := ''offer_collection''\<rparr>)\<rparr>)"
proof -
  have inn: "in_name_collection (findUser (From req) d)"
    using assms(1-3) by (simp add: in_name_collection_def)
  have run: "whatsapp req d = Inr (name_case (incomingMsg req) (From req) d)"
    using assms(4) inn by (rule dispatch_name)
  have valid: "isValidName (incomingMsg req)"
    unfolding incomingMsg_bodyText isValidName_normalized using assms(5,6) by simp
  have same: "trim (incomingMsg req) = trim (toLowerCase (bodyText req))"
    unfolding trim_incomingMsg by (rule incomingMsg_bodyText)
  from name_case_valid [OF assms(1,2) valid] show ?thesis
    unfolding run same by auto
qed

text \<open>C4, at a concrete input: "  Mary-Ann O'Neil " is stored as "mary-ann o'neil".\<close>

theorem valid_name_stored_lower_cased_witness:
  "\<exists>out. whatsapp (message_from jane ''  Mary-Ann O'Neil '') store_naming = Inr out
     \<and> twiml out = [hello_text (Some ''mary-ann o'neil'')] \<and> stored out = mem out
     \<and> findUser jane (stored out)
         = Some (jane_naming\<lparr>name := Some ''mary-ann o'neil'',
              currentNegotiation := Some \<lparr>tractorId = 2, stage = ''offer_collection''\<rparr>\<rparr>)"
proof -
  let ?req = "message_from jane ''  Mary-Ann O'Neil ''"
  let ?n = "\<lparr>tractorId = 2, stage = ''name_collection''\<rparr>"
  have h1: "findUser (From ?req) store_naming = Some jane_naming"
    by (simp add: From_message_from jane_in_store_naming)
  have h3: "stage ?n = ''name_collection''" by simp
  have h4: "\<not> earlier_case (incomingMsg ?req)" by code_simp
  have h5: "list_all nameChar (bodyText ?req)" by code_simp
  have h6: "2 \<le> length (trim (bodyText ?req))" by code_simp
  have t: "trim (toLowerCase (bodyText ?req)) = ''mary-ann o'neil''" by code_simp
  have s: "?n\<lparr>stage := ''offer_collection''\<rparr> = \<lparr>tractorId = 2, stage = ''offer_collection''\<rparr>"
    by simp
  from valid_name_stored_lower_cased [OF h1 jane_naming_negotiation h3 h4 h5 h6]
  show ?thesis unfolding t s From_message_from .
qed

text \<open>
  C4 as first stated (the name is the text exactly as sent) fails: "Jane Doe" passes the
  validation and is stored as "jane doe".
\<close>

theorem jane_doe_not_stored_as_sent:
  "list_all nameChar ''Jane Doe'' \<and> 2 \<le> length (trim ''Jane Doe'')
   \<and> in_name_collection (findUser jane store_naming)
   \<and> (\<exists>out u. whatsapp (message_from jane ''Jane Doe'') store_naming = Inr out
         \<and> findUser jane (stored out) = Some u
         \<and> name u = Some ''jane doe'' \<and> name u \<noteq> Some ''Jane Doe'')"
proof -
  have a: "list_all nameChar ''Jane Doe''" by code_simp
  have b: "2 \<le> length (trim ''Jane Doe'')" by code_simp
  from jane_doe_outcome obtain out where
    o: "whatsapp (message_from jane ''Jane Doe'') store_naming = Inr out"
      "findUser jane (stored out)
         = Some (jane_naming\<lparr>name := Some ''jane doe'',
              currentNegotiation := Some \<lparr>tractorId = 2, stage = ''offer_collection''\<rparr>\<rparr>)"
    by blast
  have "\<exists>out u. whatsapp (message_from jane ''Jane Doe'') store_naming = Inr out
         \<and> findUser jane (stored out) = Some u
         \<and> name u = Some ''jane doe'' \<and> name u \<noteq> Some ''Jane Doe''"
    using o by simp
  with a b jane_is_naming show ?thesis by blast
qed




section \<open>An offer without a negotiation to offer on\<close>

text \<open>
  C10. A message that starts with "offer", from a sender who has no user record, or no
  negotiation, or a negotiation whose stage is neither \<open>name_collection\<close> nor
  \<open>offer_collection\<close>, is answered with the no-active-negotiation text, which is not the
  default help text, and nothing is changed or written.
\<close>

theorem offer_without_negotiation:
  assumes "startsWith (incomingMsg req) ''offer''"
    and "case findUser (From req) d of None \<Rightarrow> True
         | Some u \<Rightarrow> (case currentNegotiation u of None \<Rightarrow> True
             | Some n \<Rightarrow> stage n \<noteq> ''name_collection'' \<and> stage n \<noteq> ''offer_collection'')"
  shows "whatsapp req d = Inr \<lparr>twiml = [no_negotiation_text], mem = d, stored = d\<rparr>
       \<and> no_negotiation_text \<noteq> default_text"
proof
  have "\<not> in_name_collection (findUser (From req) d)"
    using assms(2) by (simp add: in_name_collection_def split: option.splits)
  with assms(1) have "whatsapp req d = offer_case (incomingMsg req) (From req) d"
    by (rule dispatch_offer)
  then have run: "whatsapp req d = offer_case (incomingMsg req) (From req) d" .
  show "whatsapp req d = Inr \<lparr>twiml = [no_negotiation_text], mem = d, stored = d\<rparr>"
  proof (cases "findUser (From req) d")
    case None
    then show ?thesis unfolding run by (simp add: offer_case_def reply_only_def)
  next
    case (Some u)
    show ?thesis
    proof (cases "currentNegotiation u")
      case None
      with Some show ?thesis unfolding run by (simp add: offer_case_def reply_only_def)
    next
      case (Some n)
      with \<open>findUser (From req) d = Some u\<close> assms(2)
      have "stage n \<noteq> ''offer_collection''" by simp
      with Some \<open>findUser (From req) d = Some u\<close> show ?thesis
        unfolding run by (simp add: offer_case_def reply_only_def)
    qed
  qed
  show "no_negotiation_text \<noteq> default_text"
    by (simp add: no_negotiation_text_def default_text_def createResponseMessage_def
        cross_mark_def wave_def)
qed

text \<open>C10, at a concrete input: Jane, without a user record, sends "offer 5000".\<close>

theorem offer_without_negotiation_witness:
  "whatsapp (message_from jane ''offer 5000'') store_fresh
     = Inr \<lparr>twiml = [no_negotiation_text], mem = store_fresh, stored = store_fresh\<rparr>
   \<and> no_negotiation_text \<noteq> default_text"
proof -
  let ?req = "message_from jane ''offer 5000''"
  have h1: "startsWith (incomingMsg ?req) ''offer''" by code_simp
  have h2: "case findUser (From ?req) store_fresh of None \<Rightarrow> True
         | Some u \<Rightarrow> (case currentNegotiation u of None \<Rightarrow> True
             | Some n \<Rightarrow> stage n \<noteq> ''name_collection'' \<and> stage n \<noteq> ''offer_collection'')"
    by (simp add: findUser_def store_fresh_def)
  from offer_without_negotiation [OF h1 h2] show ?thesis .
qed

text \<open>
  C10 as first stated (every negotiation not in stage \<open>offer_collection\<close>) fails: while
  Jane is asked for her name, "offer 5000" is handled by the name branch and answered with
  the invalid-name text.
\<close>

theorem offer_during_name_collection:
  "in_name_collection (findUser jane store_naming)
   \<and> startsWith (incomingMsg (message_from jane ''offer 5000'')) ''offer''
   \<and> whatsapp (message_from jane ''offer 5000'') store_naming
       = Inr \<lparr>twiml = [invalid_name_text], mem = store_naming, stored = store_naming\<rparr>
   \<and> invalid_name_text \<noteq> no_negotiation_text"
proof -
  let ?req = "message_from jane ''offer 5000''"
  have m: "incomingMsg ?req = ''offer 5000''" by code_simp
  have s: "startsWith (incomingMsg ?req) ''offer''" by code_simp
  have ne: "\<not> earlier_case (incomingMsg ?req)" unfolding m by code_simp
  have inn: "in_name_collection (findUser (From ?req) store_naming)"
    by (simp add: From_message_from jane_is_naming)
  have nv: "\<not> isValidName ''offer 5000''" by code_simp
  have run: "whatsapp ?req store_naming
       = Inr \<lparr>twiml = [invalid_name_text], mem = store_naming, stored = store_naming\<rparr>"
    using dispatch_name [OF ne inn] nv
    by (simp add: m From_message_from name_case_def reply_only_def)
  have d: "invalid_name_text \<noteq> no_negotiation_text"
    by (simp add: invalid_name_text_def no_negotiation_text_def createResponseMessage_def)
  from jane_is_naming s run d show ?thesis by blast
qed

end
